theory Spec2Isabelle
  imports Complex_Main
begin

section \<open>Python values used by the player\<close>

text \<open>
  A Python \<open>str\<close> is modelled as a \<open>string\<close> whose characters are the code points 0
  to 255. On these, \<open>str.strip\<close> removes from both ends the characters for which
  \<open>str.isspace\<close> holds (code points 9 to 13, 28 to 32, 133 and 160), and \<open>str.lower\<close>
  maps \<open>A\<close> .. \<open>Z\<close> (65 to 90) and the capital letters 192 to 214 and 216 to 222 to
  the letter 32 code points above; every other character is left as it is.
  An argument that may be \<open>None\<close> is a \<open>string option\<close>.

  The scores and confidences, Python floats, are modelled as real numbers: \<open>/\<close> is
  exact division and rounding is not modelled. The similarities of the calibration
  matcher are numpy's; their computation is a parameter of the model (see there).
\<close>

datatype py_error = KeyError | ValueError | IndexError | ZeroDivisionError

definition is_space :: "char \<Rightarrow> bool" where
  "is_space c =
    (let n = (of_char c :: nat)
     in (9 \<le> n \<and> n \<le> 13) \<or> (28 \<le> n \<and> n \<le> 32) \<or> n = 133 \<or> n = 160)"

definition lower_char :: "char \<Rightarrow> char" where
  "lower_char c =
    (let n = (of_char c :: nat)
     in if (65 \<le> n \<and> n \<le> 90) \<or> (192 \<le> n \<and> n \<le> 214) \<or> (216 \<le> n \<and> n \<le> 222)
        then char_of (n + 32) else c)"

definition lower :: "string \<Rightarrow> string" where
  "lower s = map lower_char s"

definition strip :: "string \<Rightarrow> string" where
  "strip s = rev (dropWhile is_space (rev (dropWhile is_space s)))"

text \<open>Truthiness of an optional string: \<open>None\<close> and the empty string are false.\<close>

definition truthy :: "string option \<Rightarrow> bool" where
  "truthy v = (case v of None \<Rightarrow> False | Some s \<Rightarrow> s \<noteq> [])"

text \<open>\<open>d.get(k) or ...\<close>: the value found when it is truthy, otherwise the right operand is taken.\<close>

definition get_truthy :: "(string \<times> string) list \<Rightarrow> string \<Rightarrow> string option" where
  "get_truthy d k = (case map_of d k of None \<Rightarrow> None | Some v \<Rightarrow> if v = [] then None else Some v)"

text \<open>\<open>d[k]\<close> raises \<open>KeyError\<close> on a missing key.\<close>

definition subscript :: "(string \<times> string) list \<Rightarrow> string \<Rightarrow> py_error + string" where
  "subscript d k = (case map_of d k of None \<Rightarrow> Inl KeyError | Some v \<Rightarrow> Inr v)"


section \<open>\<open>emotion_player/playlist.py\<close>\<close>

definition EMOTION_TO_QUERY_YOUTUBE :: "(string \<times> string) list" where
  "EMOTION_TO_QUERY_YOUTUBE =
    [(''happy'', ''happy mood Bollywood songs''),
     (''sad'', ''sad emotional songs''),
     (''angry'', ''rock songs playlist''),
     (''neutral'', ''lofi chill songs''),
     (''surprise'', ''party songs playlist'')]"

definition EMOTION_TO_SPOTIFY :: "(string \<times> string) list" where
  "EMOTION_TO_SPOTIFY =
    [(''happy'', ''https://open.spotify.com/playlist/37i9dQZF1DXdPec7aLTmlC''),
     (''sad'', ''https://open.spotify.com/playlist/37i9dQZF1DX3YSRoSdA634''),
     (''angry'', ''https://open.spotify.com/playlist/37i9dQZF1DX1tyCD9QhIWF''),
     (''neutral'', ''https://open.spotify.com/playlist/37i9dQZF1DX8Uebhn9wzrS''),
     (''surprise'', ''https://open.spotify.com/playlist/37i9dQZF1DX0XUsuxWHRQd'')]"

definition FALLBACKS :: "(string \<times> string) list" where
  "FALLBACKS =
    [(''fear'', ''https://open.spotify.com/playlist/37i9dQZF1DWXLeA8Omikj7''),
     (''disgust'', ''https://open.spotify.com/playlist/37i9dQZF1DX1tyCD9QhIWF'')]"

definition SYNONYMS :: "(string \<times> string) list" where
  "SYNONYMS =
    [(''anger'', ''angry''),
     (''happiness'', ''happy''),
     (''sadness'', ''sad''),
     (''surprised'', ''surprise'')]"

definition normalize_emotion_label :: "string option \<Rightarrow> string" where
  "normalize_emotion_label label =
    (let lbl = lower (strip (case label of None \<Rightarrow> [] | Some s \<Rightarrow> s))
     in case map_of SYNONYMS lbl of None \<Rightarrow> lbl | Some v \<Rightarrow> v)"

text \<open>
  The body shared by \<open>emotion_to_query\<close> and \<open>emotion_to_spotify\<close>:
  \<open>table.get(lbl) or _FALLBACKS.get(lbl) or table['neutral']\<close>.
\<close>

definition lookup_chain :: "(string \<times> string) list \<Rightarrow> string \<Rightarrow> py_error + string" where
  "lookup_chain table lbl =
    (case get_truthy table lbl of
       Some v \<Rightarrow> Inr v
     | None \<Rightarrow>
        (case get_truthy FALLBACKS lbl of
           Some v \<Rightarrow> Inr v
         | None \<Rightarrow> subscript table ''neutral''))"

definition emotion_to_query :: "string option \<Rightarrow> py_error + string" where
  "emotion_to_query label = lookup_chain EMOTION_TO_QUERY_YOUTUBE (normalize_emotion_label label)"

definition emotion_to_spotify :: "string option \<Rightarrow> py_error + string" where
  "emotion_to_spotify label = lookup_chain EMOTION_TO_SPOTIFY (normalize_emotion_label label)"

definition canonical :: "string list" where
  "canonical = [''happy'', ''sad'', ''angry'', ''neutral'', ''surprise'']"



section \<open>\<open>app.py\<close>: the label smoother\<close>

record LabelSmoother =
  window :: nat
  buf :: "string list"

text \<open>\<open>__init__\<close>: \<open>self.window = max(1, int(window))\<close>, \<open>self.buf = deque(maxlen=self.window)\<close>.\<close>

definition LabelSmoother_init :: "int \<Rightarrow> LabelSmoother" where
  "LabelSmoother_init w = \<lparr>window = nat (max 1 w), buf = []\<rparr>"

text \<open>
  \<open>deque.append\<close> on a deque with a \<open>maxlen\<close>: a full deque drops its oldest (leftmost)
  entry; a deque of capacity 0 stays empty.
\<close>

definition deque_append :: "nat \<Rightarrow> 'a list \<Rightarrow> 'a \<Rightarrow> 'a list" where
  "deque_append maxlen d x =
    (if maxlen = 0 then []
     else if length d = maxlen then tl d @ [x]
     else d @ [x])"

text \<open>
  \<open>Counter(iterable)\<close>: a dict from element to count; its items stand in the order in
  which each element was first seen.
\<close>

fun count_incr :: "'a \<Rightarrow> ('a \<times> nat) list \<Rightarrow> ('a \<times> nat) list" where
  "count_incr x [] = [(x, 1)]"
| "count_incr x ((k, n) # c) = (if k = x then (k, n + 1) # c else (k, n) # count_incr x c)"

definition Counter :: "'a list \<Rightarrow> ('a \<times> nat) list" where
  "Counter xs = foldl (\<lambda>c x. count_incr x c) [] xs"

text \<open>
  \<open>most_common(1)\<close> is \<open>heapq.nlargest(1, items, key=count)\<close>, that is
  \<open>[max(items, key=count)]\<close>, or \<open>[]\<close> for no items. \<open>max\<close> keeps the first item of
  the greatest key: a later item replaces the running best only when its key is
  strictly greater.
\<close>

fun max_by_count :: "('a \<times> nat) \<Rightarrow> ('a \<times> nat) list \<Rightarrow> ('a \<times> nat)" where
  "max_by_count best [] = best"
| "max_by_count best (kv # c) = max_by_count (if snd best < snd kv then kv else best) c"

definition most_common_1 :: "('a \<times> nat) list \<Rightarrow> ('a \<times> nat) list" where
  "most_common_1 c = (case c of [] \<Rightarrow> [] | kv # rest \<Rightarrow> [max_by_count kv rest])"

text \<open>
  The part of \<open>update\<close> after the append (lines 32 to 37): the vote over the buffer.
  \<open>most_common(1)[0]\<close> raises \<open>IndexError\<close> on an empty list.
\<close>

definition vote :: "string list \<Rightarrow> py_error + (string option \<times> real)" where
  "vote b =
    (if b = [] then Inr (None, 0)
     else
       (case most_common_1 (Counter b) of
          [] \<Rightarrow> Inl IndexError
        | (top_label, top_count) # _ \<Rightarrow> Inr (Some top_label, real top_count / real (length b))))"

definition update :: "LabelSmoother \<Rightarrow> string option \<Rightarrow> LabelSmoother \<times> (py_error + (string option \<times> real))" where
  "update s label =
    (let s1 = (if truthy label
               then (case label of None \<Rightarrow> s
                     | Some l \<Rightarrow> s\<lparr>buf := deque_append (window s) (buf s) l\<rparr>)
               else s)
     in (s1, vote (buf s1)))"

text \<open>Feeding a sequence of observations, one \<open>update\<close> each; the results in order.\<close>

fun feed :: "LabelSmoother \<Rightarrow> string option list \<Rightarrow> LabelSmoother \<times> (py_error + (string option \<times> real)) list" where
  "feed s [] = (s, [])"
| "feed s (l # ls) =
    (let (s1, r) = update s l; (s2, rs) = feed s1 ls in (s2, r # rs))"


text \<open>
  For stating what the smoother returns: the last \<open>k\<close> entries of a list, and the last
  \<open>min W n\<close> of the first \<open>n\<close> observations.
\<close>

definition last_entries :: "nat \<Rightarrow> 'a list \<Rightarrow> 'a list" where
  "last_entries k xs = drop (length xs - k) xs"

definition recent :: "nat \<Rightarrow> nat \<Rightarrow> 'a list \<Rightarrow> 'a list" where
  "recent W n ls = last_entries (min W n) (take n ls)"


section \<open>\<open>emotion_player/detector.py\<close>\<close>

record EmotionResult =
  dominant_emotion :: string
  emotions :: "(string \<times> real) list"
  score :: real

text \<open>
  The calibration data: the items of the loaded JSON object in their order, each emotion
  with its \<open>mean_embedding\<close>; \<open>None\<close> when nothing was loaded. The type \<open>'a\<close> of the
  entries of a vector is left open: they are the numbers of the JSON file and of the
  embedding (Python ints and floats).
\<close>

type_synonym 'a profile = "(string \<times> 'a list) list"

record 'a EmotionDetector =
  use_calibration :: bool
  calibration_data :: "'a profile option"
  calibration_counter :: int
  calibration_check_interval :: int

text \<open>
  \<open>__init__\<close>; \<open>loaded\<close> is what \<open>_load_calibration\<close> reads from the calibration file
  (\<open>None\<close> when the file is missing or unreadable), consulted only with \<open>use_calibration\<close>.
\<close>

definition EmotionDetector_init :: "bool \<Rightarrow> 'a profile option \<Rightarrow> 'a EmotionDetector" where
  "EmotionDetector_init use_cal loaded =
    \<lparr>use_calibration = use_cal,
     calibration_data = (if use_cal then loaded else None),
     calibration_counter = 0,
     calibration_check_interval = 5\<rparr>"

text \<open>
  A numpy float as a value: a real number (every finite double is one), an infinity
  (\<open>Inf True\<close> is \<open>+inf\<close>) or NaN. \<open>fgt x y\<close> is the comparison \<open>x > y\<close>: the order of
  the reals with the infinities at its ends, and false whenever NaN takes part. The
  constants \<open>-1\<close> and \<open>0.75\<close> of the code are doubles exactly.
\<close>

datatype npfloat = NaN | Inf bool | Fin real

fun fgt :: "npfloat \<Rightarrow> npfloat \<Rightarrow> bool" where
  "fgt (Fin a) (Fin b) = (b < a)"
| "fgt (Inf p) (Fin b) = p"
| "fgt (Fin a) (Inf q) = (\<not> q)"
| "fgt (Inf p) (Inf q) = (p \<and> \<not> q)"
| "fgt NaN y = False"
| "fgt x NaN = False"

text \<open>
  Lines 83 to 85, \<open>calib_emb = np.array(data['mean_embedding'])\<close> and
  \<open>similarity = np.dot(current_emb, calib_emb) / (norm(current_emb) * norm(calib_emb))\<close>,
  are computed by numpy, in double arithmetic with its rounding (in 64-bit integer
  arithmetic for the dot product of integer arrays), and numpy is not part of the
  repository. The model takes this computation as the parameter \<open>sim\<close>: applied to the
  embedding and a profile vector it gives the float that the two lines compute, or the
  exception that they raise (\<open>np.dot\<close> raises \<open>ValueError\<close> for vectors of different
  lengths). Nothing is assumed about \<open>sim\<close>.
\<close>

type_synonym 'a similarity = "'a list \<Rightarrow> 'a list \<Rightarrow> py_error + npfloat"

text \<open>
  The \<open>for\<close> loop of \<open>_match_with_calibration\<close> over the profile's items, carrying
  \<open>(best_emotion, best_similarity)\<close>; an exception leaves the loop.
\<close>

fun calibration_loop ::
  "'a similarity \<Rightarrow> 'a list \<Rightarrow> 'a profile \<Rightarrow> string option \<times> npfloat \<Rightarrow>
     py_error + (string option \<times> npfloat)" where
  "calibration_loop sim cur [] best = Inr best"
| "calibration_loop sim cur ((emotion, calib_emb) # rest) best =
    (case sim cur calib_emb of
       Inl e \<Rightarrow> Inl e
     | Inr similarity \<Rightarrow>
         calibration_loop sim cur rest
           (if fgt similarity (snd best) then (Some emotion, similarity) else best))"

text \<open>
  What \<open>DeepFace.represent\<close> does when called: it raises, or returns a list of objects or
  one object; an object is modelled by what its \<open>.get('embedding')\<close> gives.
\<close>

datatype 'a represent_out =
  RepresentRaised
| RepresentList "'a list option list"
| RepresentDict "'a list option"

text \<open>
  \<open>_match_with_calibration\<close>, with the events of the external calls it makes. The
  \<open>try ... except Exception: pass\<close> turns every exception of its body into \<open>None\<close>.
\<close>

datatype event = CallRepresent | CallAnalyze

definition match_embedding :: "'a similarity \<Rightarrow> 'a list \<Rightarrow> 'a profile \<Rightarrow> string option" where
  "match_embedding sim current_emb prof =
    (case calibration_loop sim current_emb prof (None, Fin (- 1)) of
       Inl e \<Rightarrow> None
     | Inr (best_emotion, best_similarity) \<Rightarrow>
         if fgt best_similarity (Fin (3 / 4)) then best_emotion else None)"

definition match_with_calibration ::
  "'a similarity \<Rightarrow> 'a EmotionDetector \<Rightarrow> 'a represent_out \<Rightarrow> string option \<times> event list" where
  "match_with_calibration sim d rep =
    (case calibration_data d of
       None \<Rightarrow> (None, [])
     | Some prof \<Rightarrow>
         if prof = [] then (None, [])
         else
           (case rep of
              RepresentRaised \<Rightarrow> (None, [CallRepresent])
            | RepresentList [] \<Rightarrow> (None, [CallRepresent])
            | RepresentList (obj # _) \<Rightarrow>
                (case obj of
                   None \<Rightarrow> (None, [CallRepresent])
                 | Some e \<Rightarrow> if e = [] then (None, [CallRepresent])
                             else (match_embedding sim e prof, [CallRepresent]))
            | RepresentDict obj \<Rightarrow>
                (case obj of
                   None \<Rightarrow> (None, [CallRepresent])
                 | Some e \<Rightarrow> if e = [] then (None, [CallRepresent])
                             else (match_embedding sim e prof, [CallRepresent]))))"


text \<open>
  The similarity in exact arithmetic, with \<open>ValueError\<close> for vectors of different
  lengths and NaN for \<open>0/0\<close> (a zero norm makes the dot product zero). It is not
  numpy's arithmetic. It stands for \<open>sim\<close> in the examples only, whose vectors are
  chosen so that double arithmetic is exact on them: entries 0, 1 and 2, norms 0, 1, 2
  and 4, quotients 1 and 1/2.
\<close>

definition exact_similarity :: "real similarity" where
  "exact_similarity a b =
    (if length a \<noteq> length b then Inl ValueError
     else
       (let d = sum_list (map2 (*) a b);
            n = sqrt (sum_list (map (\<lambda>x. x * x) a)) * sqrt (sum_list (map (\<lambda>x. x * x) b))
        in Inr (if n = 0 then NaN else Fin (d / n))))"

text \<open>
  What \<open>DeepFace.analyze\<close> does when called: it raises, or returns a list of result
  objects, one object, or nothing. A result object is modelled by the keys that
  \<open>analyze\<close> reads; \<open>None\<close> stands for a missing key.
\<close>

record raw_result =
  raw_dominant_emotion :: "string option"
  raw_emotion :: "(string \<times> real) list option"
  raw_emotions :: "(string \<times> real) list option"

datatype model_out =
  ModelRaised
| ModelList "raw_result list"
| ModelDict raw_result
| ModelNone

text \<open>\<open>result.get('emotion') or result.get('emotions') or {}\<close>: an empty dict is false.\<close>

definition pick_emotions :: "raw_result \<Rightarrow> (string \<times> real) list" where
  "pick_emotions r =
    (case raw_emotion r of
       Some e \<Rightarrow> if e \<noteq> [] then e else (case raw_emotions r of Some e' \<Rightarrow> e' | None \<Rightarrow> [])
     | None \<Rightarrow> (case raw_emotions r of Some e' \<Rightarrow> e' | None \<Rightarrow> []))"

text \<open>Lines 131 to 143: from one result object to the \<open>EmotionResult\<close>.\<close>

definition convert_result :: "raw_result \<Rightarrow> EmotionResult option" where
  "convert_result r =
    (case raw_dominant_emotion r of
       None \<Rightarrow> None
     | Some d \<Rightarrow>
        (let emotions = pick_emotions r;
             dom = lower d;
             total = sum_list (map snd emotions);
             score = (if emotions \<noteq> [] \<and> 0 < total
                      then (case map_of emotions dom of None \<Rightarrow> 0 | Some v \<Rightarrow> v) / total
                      else 0)
         in Some \<lparr>dominant_emotion = dom, emotions = emotions, score = score\<rparr>))"

text \<open>Lines 114 to 143: the standard detection.\<close>

definition generic_analyze :: "model_out \<Rightarrow> EmotionResult option" where
  "generic_analyze mo =
    (case mo of
       ModelRaised \<Rightarrow> None
     | ModelNone \<Rightarrow> None
     | ModelList [] \<Rightarrow> None
     | ModelList (r # _) \<Rightarrow> convert_result r
     | ModelDict r \<Rightarrow> convert_result r)"

text \<open>
  \<open>analyze\<close>: the detector after the call, the value returned (or the exception that
  leaves the call) and the external calls made, in order. \<open>%\<close> raises
  \<open>ZeroDivisionError\<close> on a zero interval; for a positive interval it is \<open>mod\<close>.
\<close>

definition analyze ::
  "'a similarity \<Rightarrow> 'a EmotionDetector \<Rightarrow> 'a represent_out \<Rightarrow> model_out \<Rightarrow>
     'a EmotionDetector \<times> (py_error + EmotionResult option) \<times> event list" where
  "analyze sim d rep mo =
    (if use_calibration d \<and> calibration_data d \<noteq> None \<and> calibration_data d \<noteq> Some []
     then
       (let d1 = d\<lparr>calibration_counter := calibration_counter d + 1\<rparr>
        in if calibration_check_interval d1 = 0 then (d1, Inl ZeroDivisionError, [])
           else if calibration_counter d1 mod calibration_check_interval d1 = 0
           then
             (let (calibrated_emotion, evs) = match_with_calibration sim d1 rep
              in if truthy calibrated_emotion
                 then (case calibrated_emotion of
                         None \<Rightarrow> (d1, Inr (generic_analyze mo), evs @ [CallAnalyze])
                       | Some l \<Rightarrow>
                           (d1, Inr (Some \<lparr>dominant_emotion = l, emotions = [(l, 100)], score = 1\<rparr>), evs))
                 else (d1, Inr (generic_analyze mo), evs @ [CallAnalyze]))
           else (d1, Inr (generic_analyze mo), [CallAnalyze]))
     else (d, Inr (generic_analyze mo), [CallAnalyze]))"

text \<open>
  A sequence of \<open>analyze\<close> calls on one detector: what each call returns and the
  external calls it makes, in order.
\<close>

fun analyze_all ::
  "'a similarity \<Rightarrow> 'a EmotionDetector \<Rightarrow> ('a represent_out \<times> model_out) list \<Rightarrow>
     ((py_error + EmotionResult option) \<times> event list) list" where
  "analyze_all sim d [] = []"
| "analyze_all sim d ((rep, mo) # fs) =
    (case analyze sim d rep mo of (d1, res, evs) \<Rightarrow> (res, evs) # analyze_all sim d1 fs)"


section \<open>\<open>app.py\<close>: the capture branch of the main loop\<close>

datatype platform = Spotify | YouTube

record Args =
  arg_threshold :: real
  arg_cooldown :: int
  arg_ignore_fear :: bool
  arg_platform :: platform

text \<open>
  The variables of \<open>main\<close> that outlive a frame: the smoother (constructed, never
  updated), \<open>last_played_label\<close> and \<open>last_play_time\<close>.
\<close>

record LoopState =
  smoother :: LabelSmoother
  last_played_label :: "string option"
  last_play_time :: real

datatype action = OpenSpotify string | OpenYouTube string

text \<open>
  Lines 107 to 138, after \<open>detector.analyze\<close> returned \<open>result\<close>: the state after the
  branch and the action taken (\<open>None\<close> for no action); \<open>now\<close> is what \<open>time.time()\<close>
  returns.
\<close>

definition on_capture ::
  "Args \<Rightarrow> LoopState \<Rightarrow> EmotionResult option \<Rightarrow> real \<Rightarrow> py_error + (LoopState \<times> action option)" where
  "on_capture args st result now =
    (case result of
       None \<Rightarrow> Inr (st, None)
     | Some r \<Rightarrow>
        (let emotion0 = normalize_emotion_label (Some (dominant_emotion r));
             emotion = (if arg_ignore_fear args \<and> emotion0 = ''fear'' then ''neutral'' else emotion0);
             opened = (if arg_platform args = Spotify
                       then (case emotion_to_spotify (Some emotion) of
                               Inl e \<Rightarrow> Inl e | Inr query \<Rightarrow> Inr (OpenSpotify query))
                       else (case emotion_to_query (Some emotion) of
                               Inl e \<Rightarrow> Inl e | Inr query \<Rightarrow> Inr (OpenYouTube query)))
         in case opened of
              Inl e \<Rightarrow> Inl e
            | Inr a \<Rightarrow> Inr (st\<lparr>last_played_label := Some emotion, last_play_time := now\<rparr>, Some a)))"

text \<open>
  Lines 106 to 138 as a whole: \<open>detector.analyze\<close> on the captured frame, then the
  branch on its result. An exception of either part leaves the loop.
\<close>

definition capture_frame ::
  "Args \<Rightarrow> 'a similarity \<Rightarrow> 'a EmotionDetector \<Rightarrow> LoopState \<Rightarrow> 'a represent_out \<Rightarrow> model_out \<Rightarrow>
     real \<Rightarrow> py_error + ('a EmotionDetector \<times> LoopState \<times> action option)" where
  "capture_frame args sim det st rep mo now =
    (case analyze sim det rep mo of
       (det1, Inl e, evs) \<Rightarrow> Inl e
     | (det1, Inr result, evs) \<Rightarrow>
         (case on_capture args st result now of
            Inl e \<Rightarrow> Inl e
          | Inr (st1, act) \<Rightarrow> Inr (det1, st1, act)))"

text \<open>
  The trigger policy in the words of the specification, for comparison with
  \<open>on_capture\<close>: true iff the label is non-empty, the confidence reaches the threshold,
  and no label was triggered yet, or the cooldown has elapsed, or the label is new.
\<close>

definition spec_should_trigger ::
  "string option \<Rightarrow> real \<Rightarrow> real \<Rightarrow> real \<Rightarrow> real \<Rightarrow> LoopState \<Rightarrow> bool" where
  "spec_should_trigger label confidence now threshold cooldownSeconds st =
    (truthy label \<and> threshold \<le> confidence \<and>
     (last_played_label st = None \<or> cooldownSeconds \<le> now - last_play_time st \<or>
      label \<noteq> last_played_label st))"


section \<open>The recommendation tables\<close>

lemma lookup_chain_youtube:
  "\<exists>q. lookup_chain EMOTION_TO_QUERY_YOUTUBE lbl = Inr q \<and> q \<noteq> [] \<and>
     (lbl \<in> set canonical \<longrightarrow> map_of EMOTION_TO_QUERY_YOUTUBE lbl = Some q) \<and>
     (lbl = ''fear'' \<or> lbl = ''disgust'' \<longrightarrow> map_of FALLBACKS lbl = Some q) \<and>
     (lbl \<notin> set canonical \<and> lbl \<noteq> ''fear'' \<and> lbl \<noteq> ''disgust'' \<longrightarrow>
        map_of EMOTION_TO_QUERY_YOUTUBE ''neutral'' = Some q)"
  by (simp add: lookup_chain_def get_truthy_def subscript_def canonical_def
      EMOTION_TO_QUERY_YOUTUBE_def FALLBACKS_def)

lemma lookup_chain_spotify:
  "\<exists>q. lookup_chain EMOTION_TO_SPOTIFY lbl = Inr q \<and> q \<noteq> [] \<and>
     (lbl \<in> set canonical \<longrightarrow> map_of EMOTION_TO_SPOTIFY lbl = Some q) \<and>
     (lbl = ''fear'' \<or> lbl = ''disgust'' \<longrightarrow> map_of FALLBACKS lbl = Some q) \<and>
     (lbl \<notin> set canonical \<and> lbl \<noteq> ''fear'' \<and> lbl \<noteq> ''disgust'' \<longrightarrow>
        map_of EMOTION_TO_SPOTIFY ''neutral'' = Some q)"
  by (simp add: lookup_chain_def get_truthy_def subscript_def canonical_def
      EMOTION_TO_SPOTIFY_def FALLBACKS_def)

text \<open>
  Claim C10. For every input (any string, also unknown, differently cased or padded
  labels, the empty string, and \<open>None\<close>), \<open>emotion_to_query\<close> and \<open>emotion_to_spotify\<close>
  raise nothing and return a non-empty recommendation: a label that normalizes to one
  of the five canonical emotions gets that emotion's entry of the platform's table, a
  label that normalizes to \<open>fear\<close> or \<open>disgust\<close> gets its entry of the fallback table, and
  every other label gets the \<open>neutral\<close> entry of the platform's table.
\<close>

theorem recommendation_total:
  "\<exists>q s. emotion_to_query label = Inr q \<and> q \<noteq> [] \<and>
         emotion_to_spotify label = Inr s \<and> s \<noteq> [] \<and>
     (normalize_emotion_label label \<in> set canonical \<longrightarrow>
        map_of EMOTION_TO_QUERY_YOUTUBE (normalize_emotion_label label) = Some q \<and>
        map_of EMOTION_TO_SPOTIFY (normalize_emotion_label label) = Some s) \<and>
     (normalize_emotion_label label = ''fear'' \<or> normalize_emotion_label label = ''disgust'' \<longrightarrow>
        map_of FALLBACKS (normalize_emotion_label label) = Some q \<and>
        map_of FALLBACKS (normalize_emotion_label label) = Some s) \<and>
     (normalize_emotion_label label \<notin> set canonical \<and>
      normalize_emotion_label label \<noteq> ''fear'' \<and> normalize_emotion_label label \<noteq> ''disgust'' \<longrightarrow>
        map_of EMOTION_TO_QUERY_YOUTUBE ''neutral'' = Some q \<and>
        map_of EMOTION_TO_SPOTIFY ''neutral'' = Some s)"
proof -
  let ?n = "normalize_emotion_label label"
  obtain q where q: "lookup_chain EMOTION_TO_QUERY_YOUTUBE ?n = Inr q \<and> q \<noteq> [] \<and>
     (?n \<in> set canonical \<longrightarrow> map_of EMOTION_TO_QUERY_YOUTUBE ?n = Some q) \<and>
     (?n = ''fear'' \<or> ?n = ''disgust'' \<longrightarrow> map_of FALLBACKS ?n = Some q) \<and>
     (?n \<notin> set canonical \<and> ?n \<noteq> ''fear'' \<and> ?n \<noteq> ''disgust'' \<longrightarrow>
        map_of EMOTION_TO_QUERY_YOUTUBE ''neutral'' = Some q)"
    using lookup_chain_youtube [of ?n] by blast
  obtain s where s: "lookup_chain EMOTION_TO_SPOTIFY ?n = Inr s \<and> s \<noteq> [] \<and>
     (?n \<in> set canonical \<longrightarrow> map_of EMOTION_TO_SPOTIFY ?n = Some s) \<and>
     (?n = ''fear'' \<or> ?n = ''disgust'' \<longrightarrow> map_of FALLBACKS ?n = Some s) \<and>
     (?n \<notin> set canonical \<and> ?n \<noteq> ''fear'' \<and> ?n \<noteq> ''disgust'' \<longrightarrow>
        map_of EMOTION_TO_SPOTIFY ''neutral'' = Some s)"
    using lookup_chain_spotify [of ?n] by blast
  show ?thesis
    unfolding emotion_to_query_def emotion_to_spotify_def
    using q s by blast
qed

text \<open>
  The padded, capitalised label \<open>'' Happy ''\<close> normalizes to \<open>happy\<close>, a canonical
  emotion, and gets the two \<open>happy\<close> entries; so does the synonym \<open>HAPPINESS\<close> between
  a no-break space (code point 160) and a next-line character (133).
\<close>

theorem recommendation_total_witness:
  "normalize_emotion_label (Some '' Happy '') \<in> set canonical \<and>
   emotion_to_query (Some '' Happy '') = Inr ''happy mood Bollywood songs'' \<and>
   emotion_to_spotify (Some '' Happy '') = Inr ''https://open.spotify.com/playlist/37i9dQZF1DXdPec7aLTmlC'' \<and>
   normalize_emotion_label (Some (CHR 0xA0 # ''HAPPINESS'' @ [CHR 0x85])) = ''happy'' \<and>
   emotion_to_spotify (Some (CHR 0xA0 # ''HAPPINESS'' @ [CHR 0x85])) =
     Inr ''https://open.spotify.com/playlist/37i9dQZF1DXdPec7aLTmlC''"
proof -
  have n: "normalize_emotion_label (Some '' Happy '') = ''happy''"
    by code_simp
  have n': "normalize_emotion_label (Some (CHR 0xA0 # ''HAPPINESS'' @ [CHR 0x85])) = ''happy''"
    by code_simp
  have c: "''happy'' \<in> set canonical"
    by (simp add: canonical_def)
  from recommendation_total [of "Some '' Happy ''"]
       recommendation_total [of "Some (CHR 0xA0 # ''HAPPINESS'' @ [CHR 0x85])"] n n' c
  show ?thesis
    by (auto simp add: EMOTION_TO_QUERY_YOUTUBE_def EMOTION_TO_SPOTIFY_def)
qed


section \<open>The label smoother\<close>

lemma map_of_count_incr:
  "map_of (count_incr x c) y =
     (if y = x then Some (case map_of c x of None \<Rightarrow> 1 | Some n \<Rightarrow> n + 1) else map_of c y)"
  by (induction c) auto

lemma Counter_snoc: "Counter (xs @ [x]) = count_incr x (Counter xs)"
  by (simp add: Counter_def)

lemma map_of_Counter:
  "map_of (Counter xs) y = (if y \<in> set xs then Some (count_list xs y) else None)"
proof (induction xs arbitrary: y rule: rev_induct)
  case Nil
  show ?case by (simp add: Counter_def)
next
  case (snoc x xs)
  show ?case
    by (simp add: Counter_snoc map_of_count_incr snoc.IH)
qed

lemma keys_count_incr: "fst ` set (count_incr x c) = insert x (fst ` set c)"
  by (induction x c rule: count_incr.induct) auto

lemma distinct_count_incr:
  "distinct (map fst c) \<Longrightarrow> distinct (map fst (count_incr x c))"
proof (induction c)
  case Nil
  show ?case by simp
next
  case (Cons kv c)
  obtain k n where kv: "kv = (k, n)" by (cases kv)
  from Cons show ?case
    using keys_count_incr [of x c] by (auto simp: kv)
qed

lemma distinct_Counter: "distinct (map fst (Counter xs))"
proof (induction xs rule: rev_induct)
  case Nil
  show ?case by (simp add: Counter_def)
next
  case (snoc x xs)
  then show ?case by (simp add: Counter_snoc distinct_count_incr)
qed

lemma Counter_items:
  "(k, n) \<in> set (Counter xs) \<longleftrightarrow> k \<in> set xs \<and> n = count_list xs k"
proof -
  have "(k, n) \<in> set (Counter xs) \<longleftrightarrow> map_of (Counter xs) k = Some n"
    using distinct_Counter [of xs] by (metis map_of_eq_Some_iff)
  then show ?thesis by (auto simp: map_of_Counter)
qed

lemma Counter_empty_iff: "Counter xs = [] \<longleftrightarrow> xs = []"
proof
  assume "Counter xs = []"
  then have "\<forall>k. map_of (Counter xs) k = None" by simp
  then show "xs = []" by (metis map_of_Counter option.distinct(1) last_in_set)
next
  assume "xs = []" then show "Counter xs = []" by (simp add: Counter_def)
qed

lemma max_by_count_mem: "max_by_count best c \<in> set (best # c)"
  by (induction c arbitrary: best) (auto split: if_splits)

lemma max_by_count_ge_best: "snd best \<le> snd (max_by_count best c)"
proof (induction c arbitrary: best)
  case Nil show ?case by simp
next
  case (Cons kv c)
  have "snd (if snd best < snd kv then kv else best) \<le> snd (max_by_count (if snd best < snd kv then kv else best) c)"
    by (rule Cons.IH)
  then show ?case by (auto split: if_splits)
qed

lemma max_by_count_ge: "kv \<in> set c \<Longrightarrow> snd kv \<le> snd (max_by_count best c)"
proof (induction c arbitrary: best)
  case Nil then show ?case by simp
next
  case (Cons a c)
  show ?case
  proof (cases "kv = a")
    case True
    have "snd (if snd best < snd a then a else best) \<le> snd (max_by_count (if snd best < snd a then a else best) c)"
      by (rule max_by_count_ge_best)
    then show ?thesis using True by (auto split: if_splits)
  next
    case False
    with Cons.prems have "kv \<in> set c" by simp
    then show ?thesis by (simp add: Cons.IH)
  qed
qed

lemma vote_nonempty:
  assumes "b \<noteq> []"
  shows "\<exists>top. vote b = Inr (Some top, real (count_list b top) / real (length b)) \<and>
           top \<in> set b \<and> (\<forall>l. count_list b l \<le> count_list b top)"
proof -
  from assms have ne: "Counter b \<noteq> []" by (simp add: Counter_empty_iff)
  then obtain kv rest where c: "Counter b = kv # rest" by (cases "Counter b") auto
  obtain top cnt where m: "max_by_count kv rest = (top, cnt)" by (cases "max_by_count kv rest")
  have "(top, cnt) \<in> set (Counter b)"
    using max_by_count_mem [of kv rest] by (simp add: c m)
  then have top: "top \<in> set b" and cnt: "cnt = count_list b top"
    by (simp_all add: Counter_items)
  have best: "count_list b l \<le> cnt" for l
  proof (cases "l \<in> set b")
    case True
    then have mem: "(l, count_list b l) \<in> set (kv # rest)"
      using Counter_items [of l "count_list b l" b] by (simp add: c)
    have "snd (l, count_list b l) \<le> snd (max_by_count kv rest)"
    proof (cases "(l, count_list b l) = kv")
      case True
      then show ?thesis using max_by_count_ge_best [of kv rest] by simp
    next
      case False
      with mem have "(l, count_list b l) \<in> set rest" by simp
      then show ?thesis by (rule max_by_count_ge)
    qed
    then show ?thesis by (simp add: m)
  next
    case False
    then have "count_list b l = 0" by (simp add: count_list_0_iff)
    then show ?thesis by simp
  qed
  have "vote b = Inr (Some top, real cnt / real (length b))"
    using assms by (simp add: vote_def most_common_1_def c m)
  with top cnt best show ?thesis by auto
qed

lemma update_fst_snd: "snd (update s l) = vote (buf (fst (update s l)))"
  by (simp add: update_def Let_def)

lemma update_label:
  "l \<noteq> [] \<Longrightarrow> fst (update s (Some l)) = s\<lparr>buf := deque_append (window s) (buf s) l\<rparr>"
  by (simp add: update_def truthy_def)

lemma update_absent:
  "\<not> truthy l \<Longrightarrow> fst (update s l) = s"
  by (simp add: update_def)

lemma deque_append_last_entries:
  assumes "1 \<le> w" and "length b \<le> w"
  shows "deque_append w b x = last_entries w (b @ [x])"
proof (cases "length b = w")
  case True
  with assms have "b \<noteq> []" by auto
  then obtain y ys where b: "b = y # ys" by (cases b) auto
  with True assms show ?thesis by (simp add: deque_append_def last_entries_def)
next
  case False
  with assms show ?thesis by (simp add: deque_append_def last_entries_def)
qed

lemma length_last_entries: "length (last_entries k xs) = min k (length xs)"
  by (simp add: last_entries_def)

lemma last_entries_snoc:
  "last_entries w (last_entries w pre @ [x]) = last_entries w (pre @ [x])"
proof (cases "w \<le> length pre")
  case True
  then have "length pre - w + w = length pre" by simp
  with True show ?thesis by (simp add: last_entries_def Suc_diff_le)
next
  case False
  then show ?thesis by (simp add: last_entries_def)
qed

lemma feed_snoc:
  "feed s (xs @ [x]) =
     (fst (update (fst (feed s xs)) x), snd (feed s xs) @ [snd (update (fst (feed s xs)) x)])"
  by (induction xs arbitrary: s) (simp_all add: split_beta Let_def)

lemma length_feed: "length (snd (feed s xs)) = length xs"
  by (induction xs arbitrary: s) (simp_all add: split_beta Let_def)

lemma feed_take: "snd (feed s (take n xs)) = take n (snd (feed s xs))"
proof (induction xs arbitrary: s n)
  case Nil show ?case by simp
next
  case (Cons x xs)
  show ?case by (cases n) (simp_all add: split_beta Let_def Cons.IH)
qed

lemma feed_state:
  assumes "\<forall>l\<in>set ls. l \<noteq> []" and "1 \<le> window s" and "buf s = last_entries (window s) pre"
  shows "window (fst (feed s (map Some ls))) = window s \<and>
         buf (fst (feed s (map Some ls))) = last_entries (window s) (pre @ ls)"
  using assms
proof (induction ls rule: rev_induct)
  case Nil
  then show ?case by simp
next
  case (snoc x xs)
  then have x: "x \<noteq> []" and ih: "window (fst (feed s (map Some xs))) = window s"
      "buf (fst (feed s (map Some xs))) = last_entries (window s) (pre @ xs)"
    by simp_all
  have len: "length (last_entries (window s) (pre @ xs)) \<le> window s"
    by (simp add: length_last_entries)
  have "deque_append (window s) (last_entries (window s) (pre @ xs)) x =
        last_entries (window s) (last_entries (window s) (pre @ xs) @ [x])"
    using snoc.prems(2) len by (rule deque_append_last_entries)
  also have "\<dots> = last_entries (window s) ((pre @ xs) @ [x])"
    by (rule last_entries_snoc)
  finally have d: "deque_append (window s) (last_entries (window s) (pre @ xs)) x =
        last_entries (window s) (pre @ xs @ [x])" by simp
  show ?case
    by (simp add: feed_snoc update_label [OF x] ih d)
qed

lemma feed_last:
  assumes "\<forall>l\<in>set ls. l \<noteq> []" and "ls \<noteq> []" and "1 \<le> W"
  shows "last (snd (feed (LabelSmoother_init W) (map Some ls))) = vote (last_entries (nat W) ls)"
proof -
  from assms(2) obtain xs x where ls: "ls = xs @ [x]" by (metis rev_exhaust)
  let ?s = "LabelSmoother_init W"
  have w: "window ?s = nat W" "1 \<le> window ?s" "buf ?s = last_entries (window ?s) []"
    using assms(3) by (simp_all add: LabelSmoother_init_def last_entries_def)
  have all: "\<forall>l\<in>set ls. l \<noteq> []" by (rule assms(1))
  have st: "buf (fst (feed ?s (map Some ls))) = last_entries (window ?s) ([] @ ls)"
    using feed_state [OF all w(2) w(3)] by simp
  have "last (snd (feed ?s (map Some ls))) = snd (update (fst (feed ?s (map Some xs))) (Some x))"
    by (simp add: ls feed_snoc)
  also have "\<dots> = vote (buf (fst (update (fst (feed ?s (map Some xs))) (Some x))))"
    by (rule update_fst_snd)
  also have "fst (update (fst (feed ?s (map Some xs))) (Some x)) = fst (feed ?s (map Some ls))"
    by (simp add: ls feed_snoc)
  finally show ?thesis using st by (simp add: w(1))
qed



lemma count_list_replicate_same: "count_list (replicate k x) x = k"
  by (induction k) simp_all

lemma smoother_nth:
  assumes "1 \<le> W" and "\<forall>l\<in>set ls. l \<noteq> []" and "1 \<le> n" and "n \<le> length ls"
  shows "\<exists>top. snd (feed (LabelSmoother_init W) (map Some ls)) ! (n - 1) =
             Inr (Some top, real (count_list (recent (nat W) n ls) top) / real (min (nat W) n)) \<and>
           top \<in> set (recent (nat W) n ls) \<and>
           (\<forall>l. count_list (recent (nat W) n ls) l \<le> count_list (recent (nat W) n ls) top) \<and>
           length (recent (nat W) n ls) = min (nat W) n"
proof -
  let ?s = "LabelSmoother_init W"
  let ?r = "recent (nat W) n ls"
  have tk: "take n ls \<noteq> []" using assms(3,4) by auto
  have all: "\<forall>l\<in>set (take n ls). l \<noteq> []" using assms(2) by (meson in_set_takeD)
  have "snd (feed ?s (map Some ls)) ! (n - 1) = take n (snd (feed ?s (map Some ls))) ! (n - 1)"
    using assms(3) by simp
  also have "\<dots> = snd (feed ?s (take n (map Some ls))) ! (n - 1)"
    by (simp only: feed_take)
  also have "\<dots> = snd (feed ?s (map Some (take n ls))) ! (n - 1)"
    by (simp only: take_map)
  also have "\<dots> = last (snd (feed ?s (map Some (take n ls))))"
    using assms(3,4) tk by (simp add: last_conv_nth length_feed flip: length_0_conv)
  also have "\<dots> = vote (last_entries (nat W) (take n ls))"
    using all tk assms(1) by (rule feed_last)
  also have "last_entries (nat W) (take n ls) = ?r"
    using assms(4) by (simp add: recent_def last_entries_def min_def)
  finally have res: "snd (feed ?s (map Some ls)) ! (n - 1) = vote ?r" .
  have len: "length ?r = min (nat W) n"
    using assms(4) by (simp add: recent_def length_last_entries)
  with assms(1,3) have ne: "?r \<noteq> []" by auto
  from vote_nonempty [OF ne] obtain top where
    top: "vote ?r = Inr (Some top, real (count_list ?r top) / real (length ?r))"
      "top \<in> set ?r" "\<forall>l. count_list ?r l \<le> count_list ?r top"
    by blast
  from res top len show ?thesis by auto
qed

lemma smoother_same_label:
  assumes "1 \<le> W" and "l \<noteq> []"
  shows "snd (feed (LabelSmoother_init W) (replicate (nat W) (Some l))) ! (nat W - 1) = Inr (Some l, 1)"
proof -
  let ?ls = "replicate (nat W) l"
  have r: "recent (nat W) (nat W) ?ls = ?ls"
    by (simp add: recent_def last_entries_def)
  have a: "\<forall>x\<in>set ?ls. x \<noteq> []" using assms(2) by simp
  have b: "1 \<le> nat W" "nat W \<le> length ?ls" using assms(1) by simp_all
  from smoother_nth [OF assms(1) a b] obtain top where
    top: "snd (feed (LabelSmoother_init W) (map Some ?ls)) ! (nat W - 1) =
             Inr (Some top, real (count_list ?ls top) / real (min (nat W) (nat W)))"
      "top \<in> set ?ls"
    unfolding r by blast
  from top(2) have t: "top = l" by simp
  have w: "real (nat W) \<noteq> 0" using assms(1) by simp
  from top(1) w show ?thesis
    by (simp add: t count_list_replicate_same)
qed

text \<open>
  Claim C2. The smoother starts empty with window \<open>W \<ge> 1\<close> and is fed non-empty labels.
  The result of the \<open>n\<close>-th \<open>update\<close> is a label that is most frequent among the last
  \<open>min W n\<close> observations (no label occurs there more often), with the confidence
  (its count among those entries) / \<open>min W n\<close>; and feeding one label \<open>W\<close> times gives
  that label with confidence 1. Python's \<open>count / len\<close> is the double nearest to this
  quotient.
\<close>

theorem smoother_consensus:
  assumes "1 \<le> W" and "\<forall>l\<in>set ls. l \<noteq> []" and "1 \<le> n" and "n \<le> length ls"
  shows "(\<exists>top. snd (feed (LabelSmoother_init W) (map Some ls)) ! (n - 1) =
             Inr (Some top, real (count_list (recent (nat W) n ls) top) / real (min (nat W) n)) \<and>
           top \<in> set (recent (nat W) n ls) \<and>
           (\<forall>l. count_list (recent (nat W) n ls) l \<le> count_list (recent (nat W) n ls) top)) \<and>
         length (recent (nat W) n ls) = min (nat W) n \<and>
         (\<forall>l. l \<noteq> [] \<longrightarrow>
            snd (feed (LabelSmoother_init W) (replicate (nat W) (Some l))) ! (nat W - 1) = Inr (Some l, 1))"
  using smoother_nth [OF assms] smoother_same_label [OF assms(1)] by blast

theorem smoother_consensus_witness:
  "snd (feed (LabelSmoother_init 3) (map Some [''sad'', ''happy'', ''happy'', ''sad'', ''happy''])) ! (4 - 1)
     = Inr (Some ''happy'', 2 / 3) \<and>
   recent 3 4 [''sad'', ''happy'', ''happy'', ''sad'', ''happy''] = [''happy'', ''happy'', ''sad''] \<and>
   snd (feed (LabelSmoother_init 3) (replicate 3 (Some ''happy''))) ! (3 - 1) = Inr (Some ''happy'', 1)"
proof -
  let ?ls = "[''sad'', ''happy'', ''happy'', ''sad'', ''happy'']"
  have r: "recent (nat 3) 4 ?ls = [''happy'', ''happy'', ''sad'']"
    by (simp add: recent_def last_entries_def)
  have h: "(1::int) \<le> 3" "\<forall>l\<in>set ?ls. l \<noteq> []" "(1::nat) \<le> 4" "(4::nat) \<le> length ?ls"
    by simp_all
  from smoother_consensus [OF h] obtain top where
    top: "snd (feed (LabelSmoother_init 3) (map Some ?ls)) ! (4 - 1) =
            Inr (Some top, real (count_list [''happy'', ''happy'', ''sad''] top) / real (min (nat 3) 4))"
      "top \<in> set [''happy'', ''happy'', ''sad'']"
      "\<forall>l. count_list [''happy'', ''happy'', ''sad''] l \<le> count_list [''happy'', ''happy'', ''sad''] top"
    and same: "\<forall>l. l \<noteq> [] \<longrightarrow>
            snd (feed (LabelSmoother_init 3) (replicate (nat 3) (Some l))) ! (nat 3 - 1) = Inr (Some l, 1)"
    unfolding r by blast
  from top(3) have "count_list [''happy'', ''happy'', ''sad''] ''happy'' \<le> count_list [''happy'', ''happy'', ''sad''] top"
    by blast
  with top(2) have t: "top = ''happy''" by auto
  from same have s: "snd (feed (LabelSmoother_init 3) (replicate (nat 3) (Some ''happy''))) ! (nat 3 - 1) = Inr (Some ''happy'', 1)"
    by simp
  have n3: "nat 3 = 3" by simp
  from top(1) s r show ?thesis
    unfolding t n3 by simp
qed

text \<open>
  Claim C3 says that \<open>update\<close> appends the normalized form of the label. It does not:
  \<open>update\<close> appends the string as it is received, and \<open>Happy\<close> stays
  \<open>Happy\<close> in the history although its normalized form is \<open>happy\<close>.
\<close>

theorem update_appends_normalized_counterexample:
  "buf (fst (update (LabelSmoother_init 3) (Some ''Happy''))) = [''Happy''] \<and>
   normalize_emotion_label (Some ''Happy'') = ''happy'' \<and>
   last (buf (fst (update (LabelSmoother_init 3) (Some ''Happy'')))) \<noteq> normalize_emotion_label (Some ''Happy'')"
proof -
  have b: "buf (fst (update (LabelSmoother_init 3) (Some ''Happy''))) = [''Happy'']"
    by (simp add: update_def truthy_def LabelSmoother_init_def deque_append_def)
  have n: "normalize_emotion_label (Some ''Happy'') = ''happy''"
    by code_simp
  show ?thesis unfolding b n by simp
qed

text \<open>
  Claim C3 as the code has it. For every non-empty label passed to \<open>update\<close> (window at
  least 1, history within the window), the value appended to the bounded history is the
  string exactly as received, the oldest entry going once the history is at capacity;
  the appended value is the normalized form when the caller passes a label that is
  normalized already.
\<close>

theorem update_appends_label_as_received:
  assumes "l \<noteq> []" and "1 \<le> window s" and "length (buf s) \<le> window s"
  shows "buf (fst (update s (Some l))) = last_entries (window s) (buf s @ [l]) \<and>
         last (buf (fst (update s (Some l)))) = l \<and>
         window (fst (update s (Some l))) = window s \<and>
         length (buf (fst (update s (Some l)))) \<le> window s \<and>
         (normalize_emotion_label (Some l) = l \<longrightarrow>
            last (buf (fst (update s (Some l)))) = normalize_emotion_label (Some l))"
proof -
  have b: "buf (fst (update s (Some l))) = last_entries (window s) (buf s @ [l])"
    using deque_append_last_entries [OF assms(2,3)] by (simp add: update_label [OF assms(1)])
  have "last (last_entries (window s) (buf s @ [l])) = l"
    using assms(2) by (simp add: last_entries_def)
  with b show ?thesis
    by (simp add: update_label [OF assms(1)] length_last_entries)
qed

theorem update_appends_label_as_received_witness:
  "buf (fst (update \<lparr>window = 2, buf = [''sad'', ''happy'']\<rparr> (Some ''Happy''))) = [''happy'', ''Happy''] \<and>
   last (buf (fst (update \<lparr>window = 2, buf = [''sad'', ''happy'']\<rparr> (Some ''Happy'')))) = ''Happy'' \<and>
   buf (fst (update \<lparr>window = 2, buf = [''sad'', ''happy'']\<rparr> (Some ''happy''))) = [''happy'', ''happy''] \<and>
   normalize_emotion_label (Some ''happy'') = ''happy''"
proof -
  let ?s = "\<lparr>window = 2, buf = [''sad'', ''happy'']\<rparr>"
  have h: "''Happy'' \<noteq> []" "1 \<le> window ?s" "length (buf ?s) \<le> window ?s" by simp_all
  have h': "''happy'' \<noteq> []" by simp
  have n: "normalize_emotion_label (Some ''happy'') = ''happy''" by code_simp
  from update_appends_label_as_received [OF h] update_appends_label_as_received [OF h' h(2,3)] n
  show ?thesis by (simp add: last_entries_def)
qed

text \<open>
  Claim C4. For every smoother state, \<open>update\<close> with an absent label (\<open>None\<close> or the
  empty string) leaves the smoother, and so its history, unchanged and returns the vote
  over the unchanged history: \<open>(None, 0.0)\<close> on an empty history, a label of the history
  otherwise; in particular it returns what the update before it returned.
\<close>

theorem update_absent_label:
  assumes "absent = None \<or> absent = Some []"
  shows "fst (update s absent) = s \<and>
         snd (update s absent) = vote (buf s) \<and>
         (buf s = [] \<longrightarrow> snd (update s absent) = Inr (None, 0)) \<and>
         (buf s \<noteq> [] \<longrightarrow> (\<exists>top c. snd (update s absent) = Inr (Some top, c) \<and> top \<in> set (buf s))) \<and>
         (\<forall>l. snd (update (fst (update s l)) absent) = snd (update s l))"
proof -
  from assms have f: "\<not> truthy absent" by (auto simp: truthy_def)
  have a: "fst (update s' absent) = s'" for s' by (rule update_absent [OF f])
  have b: "snd (update s' absent) = vote (buf s')" for s'
    using update_fst_snd [of s' absent] by (simp add: a)
  have c: "buf s = [] \<longrightarrow> vote (buf s) = Inr (None, 0)" by (simp add: vote_def)
  have d: "buf s \<noteq> [] \<longrightarrow> (\<exists>top c. vote (buf s) = Inr (Some top, c) \<and> top \<in> set (buf s))"
    using vote_nonempty [of "buf s"] by blast
  have e: "snd (update (fst (update s l)) absent) = snd (update s l)" for l
    by (simp add: b update_fst_snd [of s l])
  from a b c d e show ?thesis by simp
qed

theorem update_absent_label_witness:
  "fst (update \<lparr>window = 3, buf = [''happy'', ''sad'', ''happy'']\<rparr> None) =
     \<lparr>window = 3, buf = [''happy'', ''sad'', ''happy'']\<rparr> \<and>
   snd (update \<lparr>window = 3, buf = [''happy'', ''sad'', ''happy'']\<rparr> None) = Inr (Some ''happy'', 2 / 3) \<and>
   snd (update \<lparr>window = 3, buf = []\<rparr> (Some [])) = Inr (None, 0)"
proof -
  have v: "vote [''happy'', ''sad'', ''happy''] = Inr (Some ''happy'', 2 / 3)"
    by (simp add: vote_def most_common_1_def Counter_def)
  have v0: "vote [] = Inr (None, 0)"
    by (simp add: vote_def)
  have n: "(None :: string option) = None \<or> None = Some []" by simp
  have e: "Some [] = None \<or> Some [] = Some ([] :: string)" by simp
  from update_absent_label [OF n, of "\<lparr>window = 3, buf = [''happy'', ''sad'', ''happy'']\<rparr>"]
       update_absent_label [OF e, of "\<lparr>window = 3, buf = []\<rparr>"] v v0
  show ?thesis by simp
qed

section \<open>The detector: sampling, override and standard detection\<close>

lemma match_events:
  "calibration_data d = Some prof \<Longrightarrow> prof \<noteq> [] \<Longrightarrow> snd (match_with_calibration sim d rep) = [CallRepresent]"
  by (simp add: match_with_calibration_def split: represent_out.splits list.splits option.splits)

lemma analyze_not_sampled:
  assumes "use_calibration d" and "calibration_data d = Some prof" and "prof \<noteq> []"
    and "calibration_check_interval d \<noteq> 0"
    and "(calibration_counter d + 1) mod calibration_check_interval d \<noteq> 0"
  shows "analyze sim d rep mo =
           (d\<lparr>calibration_counter := calibration_counter d + 1\<rparr>, Inr (generic_analyze mo), [CallAnalyze])"
  using assms by (simp add: analyze_def Let_def)

lemma analyze_sampled:
  assumes "use_calibration d" and "calibration_data d = Some prof" and "prof \<noteq> []"
    and "calibration_check_interval d \<noteq> 0"
    and "(calibration_counter d + 1) mod calibration_check_interval d = 0"
  shows "analyze sim d rep mo =
    (let d1 = d\<lparr>calibration_counter := calibration_counter d + 1\<rparr>;
         m = fst (match_with_calibration sim d1 rep)
     in case m of
          None \<Rightarrow> (d1, Inr (generic_analyze mo), [CallRepresent, CallAnalyze])
        | Some l \<Rightarrow>
            if l = [] then (d1, Inr (generic_analyze mo), [CallRepresent, CallAnalyze])
            else (d1, Inr (Some \<lparr>dominant_emotion = l, emotions = [(l, 100)], score = 1\<rparr>), [CallRepresent]))"
proof -
  let ?d1 = "d\<lparr>calibration_counter := calibration_counter d + 1\<rparr>"
  have cd: "calibration_data ?d1 = Some prof" using assms(2) by simp
  have ev: "snd (match_with_calibration sim ?d1 rep) = [CallRepresent]"
    using cd assms(3) by (rule match_events)
  obtain m evs where m: "match_with_calibration sim ?d1 rep = (m, evs)"
    by (cases "match_with_calibration sim ?d1 rep")
  with ev have evs: "evs = [CallRepresent]" by simp
  show ?thesis
    using assms by (simp add: analyze_def Let_def m evs truthy_def split: option.splits)
qed

lemma analyze_counter:
  assumes "use_calibration d" and "calibration_data d = Some prof" and "prof \<noteq> []"
  shows "fst (analyze sim d rep mo) = d\<lparr>calibration_counter := calibration_counter d + 1\<rparr>"
  using assms
  by (simp add: analyze_def Let_def split_beta split: option.splits)

lemma analyze_all_nth:
  assumes "use_calibration d" and "calibration_data d = Some prof" and "prof \<noteq> []"
    and "calibration_check_interval d = 5" and "i < length frames"
  shows "(CallRepresent \<in> set (snd (analyze_all sim d frames ! i)) \<longleftrightarrow>
            (calibration_counter d + int i + 1) mod 5 = 0) \<and>
         ((calibration_counter d + int i + 1) mod 5 \<noteq> 0 \<longrightarrow>
            analyze_all sim d frames ! i = (Inr (generic_analyze (snd (frames ! i))), [CallAnalyze]))"
  using assms
proof (induction frames arbitrary: d i)
  case Nil
  then show ?case by simp
next
  case (Cons f fs)
  obtain rep mo where f: "f = (rep, mo)" by (cases f)
  let ?d1 = "d\<lparr>calibration_counter := calibration_counter d + 1\<rparr>"
  have d1: "fst (analyze sim d rep mo) = ?d1"
    using Cons.prems(1-3) by (rule analyze_counter)
  obtain res evs where a: "analyze sim d rep mo = (?d1, res, evs)"
    using d1 by (cases "analyze sim d rep mo") auto
  have k: "calibration_check_interval d \<noteq> 0" using Cons.prems(4) by simp
  show ?case
  proof (cases i)
    case 0
    show ?thesis
    proof (cases "(calibration_counter d + 1) mod 5 = 0")
      case True
      then have s: "(calibration_counter d + 1) mod calibration_check_interval d = 0"
        using Cons.prems(4) by simp
      have "CallRepresent \<in> set (snd (snd (analyze sim d rep mo)))"
        unfolding analyze_sampled [OF Cons.prems(1-3) k s]
        by (simp add: Let_def split: option.splits)
      with True 0 show ?thesis by (simp add: f a)
    next
      case False
      then have s: "(calibration_counter d + 1) mod calibration_check_interval d \<noteq> 0"
        using Cons.prems(4) by simp
      have "snd (analyze sim d rep mo) = (Inr (generic_analyze mo), [CallAnalyze])"
        unfolding analyze_not_sampled [OF Cons.prems(1-3) k s] by simp
      with False 0 show ?thesis by (simp add: f a)
    qed
  next
    case (Suc j)
    have p: "use_calibration ?d1" "calibration_data ?d1 = Some prof"
      "calibration_check_interval ?d1 = 5" "j < length fs"
      using Cons.prems Suc by simp_all
    from Cons.IH [OF p(1) p(2) Cons.prems(3) p(3) p(4)]
    show ?thesis by (simp add: f a Suc add.commute add.left_commute)
  qed
qed

text \<open>
  Claim C6. On a detector as \<open>__init__\<close> builds it with calibration enabled and a
  non-empty profile loaded, the interval is 5 and the calibration matcher runs (its
  call of \<open>DeepFace.represent\<close> is made) on the calls number 5, 10, 15, ... and on no
  other: there the only external call is \<open>DeepFace.analyze\<close> and the value returned is
  that of the standard detection.
\<close>

theorem calibration_sampling:
  assumes "prof \<noteq> []" and "i < length frames"
  shows "calibration_check_interval (EmotionDetector_init True (Some prof)) = 5 \<and>
         (CallRepresent \<in> set (snd (analyze_all sim (EmotionDetector_init True (Some prof)) frames ! i)) \<longleftrightarrow>
            (int i + 1) mod 5 = 0) \<and>
         ((int i + 1) mod 5 \<noteq> 0 \<longrightarrow>
            analyze_all sim (EmotionDetector_init True (Some prof)) frames ! i =
              (Inr (generic_analyze (snd (frames ! i))), [CallAnalyze]))"
proof -
  let ?d = "EmotionDetector_init True (Some prof)"
  have d: "use_calibration ?d" "calibration_data ?d = Some prof" "calibration_check_interval ?d = 5"
    "calibration_counter ?d = 0"
    by (simp_all add: EmotionDetector_init_def)
  from analyze_all_nth [OF d(1) d(2) assms(1) d(3) assms(2)] d(3,4) show ?thesis by simp
qed

text \<open>
  Ten calls: the fifth and the tenth consult the matcher, the first, fourth and sixth
  only the standard detection.
\<close>

theorem calibration_sampling_witness:
  "(let frames = replicate 10 (RepresentRaised, ModelNone);
        runs = analyze_all exact_similarity (EmotionDetector_init True (Some [(''happy'', [1, 0])])) frames
    in CallRepresent \<in> set (snd (runs ! 4)) \<and> CallRepresent \<in> set (snd (runs ! 9)) \<and>
       runs ! 0 = (Inr None, [CallAnalyze]) \<and> runs ! 3 = (Inr None, [CallAnalyze]) \<and>
       runs ! 5 = (Inr None, [CallAnalyze]))"
proof -
  let ?prof = "[(''happy'', [1, 0 :: real])]"
  let ?frames = "replicate 10 (RepresentRaised, ModelNone)"
  have p: "?prof \<noteq> []" by simp
  have g: "generic_analyze ModelNone = None" by (simp add: generic_analyze_def)
  have i: "(4::nat) < length ?frames" "(9::nat) < length ?frames" "(0::nat) < length ?frames"
    "(3::nat) < length ?frames" "(5::nat) < length ?frames"
    by simp_all
  from calibration_sampling [OF p i(1)] calibration_sampling [OF p i(2)]
    calibration_sampling [OF p i(3)] calibration_sampling [OF p i(4)] calibration_sampling [OF p i(5)] g
  show ?thesis by (simp add: Let_def)
qed

lemma exact_similarity_unit: "exact_similarity [1, 0] [1, 0] = Inr (Fin 1)"
  by (simp add: exact_similarity_def)

lemma match_unit: "match_embedding exact_similarity [1, 0] [(l, [1, 0])] = Some l"
  by (simp add: match_embedding_def exact_similarity_unit)

text \<open>
  Claim C7 says that a sampled call returns the override whenever the matcher finds a
  label. The test \<open>if calibrated_emotion:\<close> is one of truthiness: a profile whose key is
  the empty string matches with that label, and \<open>analyze\<close> goes on to the standard
  detection (which here finds nothing).
\<close>

theorem calibration_override_counterexample:
  "fst (match_with_calibration exact_similarity
         \<lparr>use_calibration = True, calibration_data = Some [([], [1, 0])],
          calibration_counter = 5, calibration_check_interval = 5\<rparr>
         (RepresentDict (Some [1, 0]))) = Some [] \<and>
   fst (snd (analyze exact_similarity
         \<lparr>use_calibration = True, calibration_data = Some [([], [1, 0])],
          calibration_counter = 4, calibration_check_interval = 5\<rparr>
         (RepresentDict (Some [1, 0])) ModelNone)) = Inr None"
  by (simp add: analyze_def match_with_calibration_def match_unit truthy_def generic_analyze_def)

text \<open>
  Claim C7 as the code has it. Whenever a sampled call obtains a calibration match for a
  non-empty label \<open>L\<close>, \<open>analyze\<close> returns the result with \<open>L\<close> as dominant emotion,
  the scores \<open>{L: 100.0}\<close> and the score 1.0, and the standard detection is not called.
\<close>

theorem calibration_override:
  assumes "use_calibration d" and "calibration_data d = Some prof" and "prof \<noteq> []"
    and "calibration_check_interval d \<noteq> 0"
    and "(calibration_counter d + 1) mod calibration_check_interval d = 0"
    and "fst (match_with_calibration sim (d\<lparr>calibration_counter := calibration_counter d + 1\<rparr>) rep) = Some L"
    and "L \<noteq> []"
  shows "fst (snd (analyze sim d rep mo)) =
           Inr (Some \<lparr>dominant_emotion = L, emotions = [(L, 100)], score = 1\<rparr>) \<and>
         snd (snd (analyze sim d rep mo)) = [CallRepresent]"
  unfolding analyze_sampled [OF assms(1-5)] using assms(6,7) by (simp add: Let_def)

text \<open>
  A sampled call (counter 4, interval 5) with a profile whose \<open>happy\<close> vector equals
  the embedding.
\<close>

theorem calibration_override_witness:
  "fst (snd (analyze exact_similarity
         \<lparr>use_calibration = True, calibration_data = Some [(''happy'', [1, 0])],
          calibration_counter = 4, calibration_check_interval = 5\<rparr>
         (RepresentDict (Some [1, 0])) ModelNone)) =
     Inr (Some \<lparr>dominant_emotion = ''happy'', emotions = [(''happy'', 100)], score = 1\<rparr>)"
proof -
  let ?d = "\<lparr>use_calibration = True, calibration_data = Some [(''happy'', [1, 0])],
          calibration_counter = 4, calibration_check_interval = 5\<rparr>"
  have h: "use_calibration ?d" "calibration_data ?d = Some [(''happy'', [1, 0])]"
    "[(''happy'', [1, 0 :: real])] \<noteq> []" "calibration_check_interval ?d \<noteq> 0"
    "(calibration_counter ?d + 1) mod calibration_check_interval ?d = 0"
    by simp_all
  have m: "fst (match_with_calibration exact_similarity (?d\<lparr>calibration_counter := calibration_counter ?d + 1\<rparr>)
             (RepresentDict (Some [1, 0]))) = Some ''happy''"
    by (simp add: match_with_calibration_def match_unit)
  have l: "''happy'' \<noteq> []" by simp
  from calibration_override [OF h m l] show ?thesis by simp
qed

lemma analyze_generic_path:
  "CallAnalyze \<in> set (snd (snd (analyze sim d rep mo))) \<Longrightarrow>
     fst (snd (analyze sim d rep mo)) = Inr (generic_analyze mo)"
  unfolding analyze_def Let_def
  by (cases "match_with_calibration sim (d\<lparr>calibration_counter := calibration_counter d + 1\<rparr>) rep")
     (auto simp: match_with_calibration_def split: if_splits option.splits represent_out.splits list.splits)

lemma analyze_no_calibration:
  "\<not> use_calibration d \<Longrightarrow> analyze sim d rep mo = (d, Inr (generic_analyze mo), [CallAnalyze])"
  by (simp add: analyze_def)







text \<open>
  Claim C9. On a call that takes the standard detection, when the model call raises,
  returns nothing, an empty list, or an object without \<open>dominant_emotion\<close>,
  \<open>analyze\<close> returns \<open>None\<close> and raises nothing; the capture branch then takes no
  action and leaves the smoother, \<open>last_played_label\<close> and \<open>last_play_time\<close> as they
  were, and the loop goes on.
\<close>

theorem no_result_on_failure:
  assumes "CallAnalyze \<in> set (snd (snd (analyze sim d rep mo)))"
    and "mo = ModelRaised \<or> mo = ModelNone \<or> mo = ModelList [] \<or>
         ((mo = ModelDict r \<or> mo = ModelList (r # rs)) \<and> raw_dominant_emotion r = None)"
  shows "fst (snd (analyze sim d rep mo)) = Inr None \<and>
         on_capture args st None now = Inr (st, None) \<and>
         capture_frame args sim d st rep mo now = Inr (fst (analyze sim d rep mo), st, None)"
proof -
  have "generic_analyze mo = None"
    using assms(2) by (auto simp: generic_analyze_def convert_result_def)
  with analyze_generic_path [OF assms(1)] have a: "fst (snd (analyze sim d rep mo)) = Inr None"
    by simp
  have b: "on_capture args st None now = Inr (st, None)"
    by (simp add: on_capture_def)
  obtain d1 res evs where c: "analyze sim d rep mo = (d1, res, evs)"
    by (cases "analyze sim d rep mo")
  with a have "res = Inr None" by simp
  with c b have "capture_frame args sim d st rep mo now = Inr (fst (analyze sim d rep mo), st, None)"
    by (simp add: capture_frame_def)
  with a b show ?thesis by simp
qed

text \<open>
  A model call that raises, on the detector of \<open>main\<close>; and a result object without
  the dominant emotion.
\<close>

theorem no_result_on_failure_witness:
  "capture_frame
      \<lparr>arg_threshold = 7 / 10, arg_cooldown = 45, arg_ignore_fear = False, arg_platform = Spotify\<rparr>
      exact_similarity (EmotionDetector_init False None)
      \<lparr>smoother = \<lparr>window = 10, buf = [''happy'']\<rparr>, last_played_label = Some ''happy'', last_play_time = 100\<rparr>
      RepresentRaised ModelRaised 130 =
    Inr (EmotionDetector_init False None,
         \<lparr>smoother = \<lparr>window = 10, buf = [''happy'']\<rparr>, last_played_label = Some ''happy'', last_play_time = 100\<rparr>,
         None) \<and>
   fst (snd (analyze exact_similarity (EmotionDetector_init False None) RepresentRaised
              (ModelDict \<lparr>raw_dominant_emotion = None, raw_emotion = Some [(''happy'', 1)], raw_emotions = None\<rparr>))) =
     Inr None"
proof -
  let ?d = "EmotionDetector_init False None"
  let ?r = "\<lparr>raw_dominant_emotion = None, raw_emotion = Some [(''happy'', 1::real)], raw_emotions = None\<rparr>"
  have nc: "\<not> use_calibration ?d" by (simp add: EmotionDetector_init_def)
  have h1: "CallAnalyze \<in> set (snd (snd (analyze exact_similarity ?d RepresentRaised ModelRaised)))"
    by (simp add: analyze_no_calibration [OF nc])
  have h2: "ModelRaised = ModelRaised \<or> ModelRaised = ModelNone \<or> ModelRaised = ModelList [] \<or>
         ((ModelRaised = ModelDict ?r \<or> ModelRaised = ModelList (?r # [])) \<and> raw_dominant_emotion ?r = None)"
    by simp
  have g1: "CallAnalyze \<in> set (snd (snd (analyze exact_similarity ?d RepresentRaised (ModelDict ?r))))"
    by (simp add: analyze_no_calibration [OF nc])
  have g2: "ModelDict ?r = ModelRaised \<or> ModelDict ?r = ModelNone \<or> ModelDict ?r = ModelList [] \<or>
         ((ModelDict ?r = ModelDict ?r \<or> ModelDict ?r = ModelList (?r # [])) \<and> raw_dominant_emotion ?r = None)"
    by simp
  have f: "fst (analyze exact_similarity ?d RepresentRaised ModelRaised) = ?d"
    by (simp add: analyze_no_calibration [OF nc])
  from no_result_on_failure [OF h1 h2] no_result_on_failure [OF g1 g2] f
  show ?thesis by simp
qed

lemma lookup_chain_total:
  "\<exists>q. emotion_to_spotify l = Inr q" "\<exists>q. emotion_to_query l = Inr q"
  using lookup_chain_spotify [of "normalize_emotion_label l"]
        lookup_chain_youtube [of "normalize_emotion_label l"]
  by (auto simp: emotion_to_spotify_def emotion_to_query_def)

text \<open>
  Claim C1 as the code has it. The capture branch opens the music exactly when
  \<open>analyze\<close> returned a result; exactly then it sets \<open>last_played_label\<close> to the
  normalized label (\<open>neutral\<close> for \<open>fear\<close> under \<open>--ignore-fear\<close>) and
  \<open>last_play_time\<close> to the current time, and otherwise it leaves the state as it was.
  The threshold, the cooldown and the result's score have no part in it, nor have the
  smoother, the last label and the last time.
\<close>

theorem capture_fires_on_every_result:
  "\<exists>st1 act. on_capture args st result now = Inr (st1, act) \<and>
     (act \<noteq> None \<longleftrightarrow> result \<noteq> None) \<and>
     (result = None \<longrightarrow> st1 = st) \<and>
     (\<forall>r. result = Some r \<longrightarrow>
        st1 = st\<lparr>last_played_label :=
                    Some (if arg_ignore_fear args \<and> normalize_emotion_label (Some (dominant_emotion r)) = ''fear''
                          then ''neutral'' else normalize_emotion_label (Some (dominant_emotion r))),
                 last_play_time := now\<rparr>) \<and>
     on_capture (args\<lparr>arg_threshold := t, arg_cooldown := c\<rparr>) st (map_option (score_update (\<lambda>_. x)) result) now
       = on_capture args st result now"
proof (cases result)
  case None
  then show ?thesis by (simp add: on_capture_def)
next
  case (Some r)
  let ?e = "if arg_ignore_fear args \<and> normalize_emotion_label (Some (dominant_emotion r)) = ''fear''
            then ''neutral'' else normalize_emotion_label (Some (dominant_emotion r))"
  obtain q1 q2 where q: "emotion_to_spotify (Some ?e) = Inr q1" "emotion_to_query (Some ?e) = Inr q2"
    using lookup_chain_total [of "Some ?e"] by blast
  have "on_capture args st result now =
          Inr (st\<lparr>last_played_label := Some ?e, last_play_time := now\<rparr>,
               Some (if arg_platform args = Spotify then OpenSpotify q1 else OpenYouTube q2))"
    using q by (simp add: on_capture_def Some Let_def)
  moreover have "on_capture (args\<lparr>arg_threshold := t, arg_cooldown := c\<rparr>) st
                    (map_option (score_update (\<lambda>_. x)) result) now = on_capture args st result now"
    by (simp add: on_capture_def Some Let_def)
  ultimately show ?thesis using Some by simp
qed

lemma happy_spotify:
  "emotion_to_spotify (Some ''happy'') = Inr ''https://open.spotify.com/playlist/37i9dQZF1DXdPec7aLTmlC''"
  by code_simp

lemma happy_normal: "normalize_emotion_label (Some ''happy'') = ''happy''"
  by code_simp

lemma capture_happy:
  "arg_platform args = Spotify \<Longrightarrow> dominant_emotion r = ''happy'' \<Longrightarrow>
   on_capture args st (Some r) now =
     Inr (st\<lparr>last_played_label := Some ''happy'', last_play_time := now\<rparr>,
          Some (OpenSpotify ''https://open.spotify.com/playlist/37i9dQZF1DXdPec7aLTmlC''))"
  by (simp add: on_capture_def happy_normal happy_spotify)

text \<open>
  Claim C1 gives the trigger a confidence threshold and a cooldown. The capture branch
  of \<open>main\<close> has neither: with threshold 0.7 a result of score 0.6 opens the music, and
  one second later the same label opens it again and moves \<open>last_play_time\<close>; the
  policy of the specification refuses both.
\<close>

theorem trigger_policy_counterexample:
  "on_capture
      \<lparr>arg_threshold = 7 / 10, arg_cooldown = 45, arg_ignore_fear = False, arg_platform = Spotify\<rparr>
      \<lparr>smoother = LabelSmoother_init 10, last_played_label = None, last_play_time = 0\<rparr>
      (Some \<lparr>dominant_emotion = ''happy'', emotions = [(''happy'', 60), (''sad'', 40)], score = 6 / 10\<rparr>)
      100 =
    Inr (\<lparr>smoother = LabelSmoother_init 10, last_played_label = Some ''happy'', last_play_time = 100\<rparr>,
         Some (OpenSpotify ''https://open.spotify.com/playlist/37i9dQZF1DXdPec7aLTmlC'')) \<and>
   \<not> spec_should_trigger (Some ''happy'') (6 / 10) 100 (7 / 10) 45
       \<lparr>smoother = LabelSmoother_init 10, last_played_label = None, last_play_time = 0\<rparr> \<and>
   on_capture
      \<lparr>arg_threshold = 7 / 10, arg_cooldown = 45, arg_ignore_fear = False, arg_platform = Spotify\<rparr>
      \<lparr>smoother = LabelSmoother_init 10, last_played_label = Some ''happy'', last_play_time = 100\<rparr>
      (Some \<lparr>dominant_emotion = ''happy'', emotions = [(''happy'', 100)], score = 1\<rparr>)
      101 =
    Inr (\<lparr>smoother = LabelSmoother_init 10, last_played_label = Some ''happy'', last_play_time = 101\<rparr>,
         Some (OpenSpotify ''https://open.spotify.com/playlist/37i9dQZF1DXdPec7aLTmlC'')) \<and>
   \<not> spec_should_trigger (Some ''happy'') 1 101 (7 / 10) 45
       \<lparr>smoother = LabelSmoother_init 10, last_played_label = Some ''happy'', last_play_time = 100\<rparr>"
  by (simp add: capture_happy spec_should_trigger_def truthy_def)

text \<open>
  A \<open>fear\<close> result under \<open>--ignore-fear\<close>, one second after \<open>neutral\<close> was played:
  the music opens again and the time moves.
\<close>

theorem capture_fires_on_every_result_witness:
  "on_capture
      \<lparr>arg_threshold = 7 / 10, arg_cooldown = 45, arg_ignore_fear = True, arg_platform = YouTube\<rparr>
      \<lparr>smoother = LabelSmoother_init 10, last_played_label = Some ''neutral'', last_play_time = 100\<rparr>
      (Some \<lparr>dominant_emotion = ''fear'', emotions = [(''fear'', 30), (''sad'', 70)], score = 3 / 10\<rparr>)
      101 =
    Inr (\<lparr>smoother = LabelSmoother_init 10, last_played_label = Some ''neutral'', last_play_time = 101\<rparr>,
         Some (OpenYouTube ''lofi chill songs''))"
proof -
  let ?args = "\<lparr>arg_threshold = 7 / 10, arg_cooldown = 45, arg_ignore_fear = True, arg_platform = YouTube\<rparr>"
  let ?st = "\<lparr>smoother = LabelSmoother_init 10, last_played_label = Some ''neutral'', last_play_time = 100\<rparr>"
  let ?r = "\<lparr>dominant_emotion = ''fear'', emotions = [(''fear'', 30), (''sad'', 70)], score = 3 / 10\<rparr>"
  have n: "normalize_emotion_label (Some ''fear'') = ''fear''" by code_simp
  have q: "emotion_to_query (Some ''neutral'') = Inr ''lofi chill songs''" by code_simp
  from capture_fires_on_every_result [of ?args ?st "Some ?r" 101 0 0 0] n
  obtain st1 act where
    r: "on_capture ?args ?st (Some ?r) 101 = Inr (st1, act)" "act \<noteq> None"
       "st1 = ?st\<lparr>last_played_label := Some ''neutral'', last_play_time := 101\<rparr>"
    by auto
  have "on_capture ?args ?st (Some ?r) 101 =
          Inr (?st\<lparr>last_played_label := Some ''neutral'', last_play_time := 101\<rparr>,
               Some (OpenYouTube ''lofi chill songs''))"
    by (simp add: on_capture_def n q)
  with r show ?thesis by simp
qed

section \<open>The calibration matcher\<close>


















end
